theory Spec2Isabelle
  imports Main "HOL-Library.Sublist" "HOL-Library.AList"
begin

section \<open>Python values, exceptions and strings\<close>

text \<open>
  The program is the single module \<^verbatim>\<open>MCPRegistry.py\<close>: two registry functions
  (\<^verbatim>\<open>load_saved_servers\<close>, \<^verbatim>\<open>save_servers\<close>), the class \<^verbatim>\<open>MCPClient\<close> and the
  Streamlit page \<^verbatim>\<open>main\<close>. Values that travel through \<^verbatim>\<open>json.load\<close>, \<^verbatim>\<open>json.dump\<close>
  and \<^verbatim>\<open>response.json()\<close> are JSON values; a Python \<^verbatim>\<open>dict\<close> keeps its insertion order,
  so an object is an association list. \<open>JNull\<close> is Python's \<^verbatim>\<open>None\<close>.
\<close>

datatype json =
    JNull
  | JBool bool
  | JNum int
  | JStr string
  | JArr "json list"
  | JObj "(string \<times> json) list"

text \<open>
  The exception classes the module can meet. \<open>RequestException\<close> stands for
  \<^verbatim>\<open>requests.RequestException\<close> and carries which subclass was raised: requests'
  own \<^verbatim>\<open>JSONDecodeError\<close> (raised by \<^verbatim>\<open>response.json()\<close>, requests 2.27 and later; here
  \<open>InvalidJSONError\<close>) is a subclass of it, the
  \<^verbatim>\<open>json\<close> module's \<open>JSONDecodeError\<close> (raised by \<^verbatim>\<open>json.load\<close>) is not.
  \<open>LibraryError\<close> is whatever the \<^verbatim>\<open>mcp\<close> session library raises while it spawns a
  process or talks to it.
\<close>

datatype request_exception =
    ConnectionError
  | Timeout
  | InvalidURL
  | HTTPError nat
  | InvalidJSONError

datatype exn =
    ValueError string
  | AttributeError string
  | RequestException request_exception
  | OSError
  | JSONDecodeError
  | LibraryError string

fun is_RequestException :: "exn \<Rightarrow> bool" where
  "is_RequestException (RequestException r) = True"
| "is_RequestException e = False"

text \<open>
  An instance attribute is set by an assignment to \<^verbatim>\<open>self.x\<close>; reading one that no
  assignment has set raises \<^verbatim>\<open>AttributeError\<close>.
\<close>

datatype 'a attr = Unset | Attr 'a

text \<open>\<^verbatim>\<open>s.endswith(suffix)\<close>, \<^verbatim>\<open>s.rstrip(chars)\<close> and the f-string rendering of an
  optional string (\<^verbatim>\<open>None\<close> prints as the four letters).\<close>

definition endswith :: "string \<Rightarrow> string \<Rightarrow> bool" where
  "endswith s suf = (drop (length s - length suf) s = suf)"

definition rstrip :: "string \<Rightarrow> string \<Rightarrow> string" where
  "rstrip s chars = rev (dropWhile (\<lambda>c. c \<in> set chars) (rev s))"

fun format_str :: "string option \<Rightarrow> string" where
  "format_str None = ''None''"
| "format_str (Some s) = s"

text \<open>\<^verbatim>\<open>d.get(key, default)\<close>: only a \<^verbatim>\<open>dict\<close> has the method; on a list, a string,
  a number or \<^verbatim>\<open>None\<close> the attribute lookup fails.\<close>

fun dict_get :: "json \<Rightarrow> string \<Rightarrow> json \<Rightarrow> exn + json" where
  "dict_get (JObj kvs) k d = Inr (case map_of kvs k of None \<Rightarrow> d | Some v \<Rightarrow> v)"
| "dict_get j k d = Inl (AttributeError ''get'')"

section \<open>The world outside the module\<close>

text \<open>
  \<^verbatim>\<open>StdioServerParameters(command=, args=, env=)\<close> of the \<^verbatim>\<open>mcp\<close> package.
\<close>

record StdioServerParameters =
  sp_command :: string
  sp_args :: "string list"
  sp_env :: "(string \<times> string) list option"

text \<open>A tool as the session returns it: its name and the rest of the descriptor.\<close>

record tool =
  tool_name :: string
  tool_descriptor :: json

text \<open>
  A \<^verbatim>\<open>requests.Response\<close>: the status code, and what \<^verbatim>\<open>response.json()\<close> makes of the
  body (\<open>None\<close> when the body is missing or is not JSON). \<^verbatim>\<open>raise_for_status()\<close> raises
  \<^verbatim>\<open>HTTPError\<close> for the client and server error codes, 400 to 599, and for no other.
\<close>

record response =
  status_code :: nat
  body :: "json option"

definition raise_for_status :: "response \<Rightarrow> exn option" where
  "raise_for_status r =
     (if 400 \<le> status_code r \<and> status_code r < 600
      then Some (RequestException (HTTPError (status_code r))) else None)"

definition response_json :: "response \<Rightarrow> exn + json" where
  "response_json r =
     (case body r of None \<Rightarrow> Inl (RequestException InvalidJSONError) | Some j \<Rightarrow> Inr j)"

text \<open>
  What the outside answers. \<open>requests_get\<close> is \<^verbatim>\<open>requests.get(url)\<close>: it raises a
  \<^verbatim>\<open>RequestException\<close> or returns a response. The other four are the steps of a stdio
  session: entering \<^verbatim>\<open>stdio_client(params)\<close> (spawns the subprocess), entering
  \<^verbatim>\<open>ClientSession(read, write)\<close>, \<^verbatim>\<open>session.initialize()\<close> and
  \<^verbatim>\<open>session.list_tools()\<close>; \<open>Some m\<close> (or \<open>Inl m\<close>) is the message of the
  exception the library raises there.
\<close>

record environment =
  requests_get :: "string \<Rightarrow> request_exception + response"
  stdio_client :: "StdioServerParameters \<Rightarrow> string option"
  ClientSession_enter :: "string option"
  session_initialize :: "string option"
  session_list_tools :: "string + tool list"

text \<open>
  Every effect the module has on the outside is an event, in the order it happens.
  \<open>StError prefix e\<close> is \<^verbatim>\<open>st.error(f"{prefix}{str(e)}")\<close>, \<open>StErrorText\<close> an
  \<^verbatim>\<open>st.error\<close> of a fixed text; a subprocess is named by the number \<open>next_pid\<close> had
  when it was spawned.
\<close>

datatype event =
    Spawned nat StdioServerParameters
  | SessionOpened nat
  | Initialized nat
  | ToolsListed nat
  | HttpGet string
  | StError string exn
  | StErrorText string
  | StWarning string
  | StSuccess string
  | StRerun
  | Printed "string list"

record world =
  events :: "event list"
  next_pid :: nat

definition emit :: "event list \<Rightarrow> world \<Rightarrow> world" where
  "emit es w = w\<lparr>events := events w @ es\<rparr>"

section \<open>MCPClient\<close>

datatype stream = ReadStream nat | WriteStream nat

datatype entered = StdioTransport nat | Session nat

text \<open>
  The instance attributes. \<^verbatim>\<open>__init__\<close> sets \<open>protocol\<close>, \<open>process\<close>, \<open>stop_event\<close>,
  \<open>session\<close> and \<open>exit_stack\<close> always, \<open>server_url\<close> in the http branch only,
  \<open>command\<close> and \<open>server_params\<close> in the stdio branch only; \<open>stdio\<close> and
  \<open>write_stream\<close> (the source's \<^verbatim>\<open>self.write\<close>) are set once a transport is open.
  \<open>exit_stack\<close> lists the contexts entered on the \<^verbatim>\<open>AsyncExitStack\<close>.
\<close>

record MCPClient =
  protocol :: string
  process :: "unit option"
  stop_event :: "unit option"
  session :: "nat option"
  exit_stack :: "entered list"
  server_url :: "string option attr"
  command :: "string option attr"
  server_params :: "StdioServerParameters attr"
  stdio :: "stream attr"
  write_stream :: "stream attr"

text \<open>
  \<^verbatim>\<open>MCPClient.__init__(server_url, command, program, protocol)\<close>. The parameter
  \<open>program\<close> is never read, and the launch parameters are the literal
  \<^verbatim>\<open>command="uv", args=["run", "OneMCPServer.py"], env=None\<close>. The world goes in and
  comes out: the constructor calls nothing of the outside.
\<close>

definition MCPClient_init ::
  "string option \<Rightarrow> string option \<Rightarrow> string option \<Rightarrow> string \<Rightarrow> world
     \<Rightarrow> (exn + MCPClient) \<times> world" where
  "MCPClient_init url cmd program proto w =
     (let self = \<lparr>protocol = proto, process = None, stop_event = None, session = None,
                  exit_stack = [], server_url = Unset, command = Unset,
                  server_params = Unset, stdio = Unset, write_stream = Unset\<rparr>
      in if proto = ''http'' then
           (Inr (self\<lparr>server_url :=
                   Attr (case url of
                           None \<Rightarrow> None
                         | Some u \<Rightarrow> if u = [] then None else Some (rstrip u ''/''))\<rparr>), w)
         else if proto = ''stdio'' then
           (Inr (self\<lparr>command := Attr cmd,
                       server_params :=
                         Attr \<lparr>sp_command = ''uv'', sp_args = [''run'', ''OneMCPServer.py''],
                               sp_env = None\<rparr>\<rparr>), w)
         else (Inl (ValueError (''Unsupported protocol: '' @ proto)), w))"

text \<open>
  Lines 88 to 92 of \<^verbatim>\<open>connect_to_server\<close> and lines 124 to 127 of \<^verbatim>\<open>list_tools\<close> are the
  same four statements: enter \<^verbatim>\<open>stdio_client(self.server_params)\<close> on the exit stack, store
  the two streams, enter \<^verbatim>\<open>ClientSession\<close> on the exit stack and store it in
  \<^verbatim>\<open>self.session\<close>, await \<^verbatim>\<open>initialize()\<close>. No statement reads \<^verbatim>\<open>self.session\<close> first.
  An exception leaves the attributes assigned so far in place.
\<close>

definition open_session ::
  "environment \<Rightarrow> MCPClient \<Rightarrow> world \<Rightarrow> (exn + nat) \<times> MCPClient \<times> world" where
  "open_session E self w =
     (case server_params self of
        Unset \<Rightarrow> (Inl (AttributeError ''server_params''), self, w)
      | Attr sp \<Rightarrow>
          (case stdio_client E sp of
             Some m \<Rightarrow> (Inl (LibraryError m), self, w)
           | None \<Rightarrow>
               let pid = next_pid w;
                   w1 = emit [Spawned pid sp] (w\<lparr>next_pid := Suc pid\<rparr>);
                   self1 = self\<lparr>exit_stack := exit_stack self @ [StdioTransport pid],
                                stdio := Attr (ReadStream pid),
                                write_stream := Attr (WriteStream pid)\<rparr>
               in (case ClientSession_enter E of
                     Some m \<Rightarrow> (Inl (LibraryError m), self1, w1)
                   | None \<Rightarrow>
                       let self2 = self1\<lparr>exit_stack := exit_stack self1 @ [Session pid],
                                          session := Some pid\<rparr>;
                           w2 = emit [SessionOpened pid] w1
                       in (case session_initialize E of
                             Some m \<Rightarrow> (Inl (LibraryError m), self2, w2)
                           | None \<Rightarrow> (Inr pid, self2, emit [Initialized pid] w2)))))"

text \<open>
  \<^verbatim>\<open>get_server_info\<close>. The body of the \<^verbatim>\<open>try\<close> comes first; the handler catches
  \<^verbatim>\<open>requests.RequestException\<close> only. A protocol that is neither string falls off the end
  of the function, which returns \<^verbatim>\<open>None\<close>.
\<close>

definition get_server_info_try :: "environment \<Rightarrow> string \<Rightarrow> exn + json" where
  "get_server_info_try E url =
     (case requests_get E url of
        Inl r \<Rightarrow> Inl (RequestException r)
      | Inr resp \<Rightarrow>
          (case raise_for_status resp of
             Some e \<Rightarrow> Inl e
           | None \<Rightarrow> response_json resp))"

definition get_server_info ::
  "environment \<Rightarrow> MCPClient \<Rightarrow> world \<Rightarrow> (exn + json) \<times> world" where
  "get_server_info E self w =
     (if protocol self = ''http'' then
        (case server_url self of
           Unset \<Rightarrow> (Inl (AttributeError ''server_url''), w)
         | Attr u \<Rightarrow>
             let url = format_str u @ ''/server_info'';
                 w1 = emit [HttpGet url] w
             in (case get_server_info_try E url of
                   Inr j \<Rightarrow> (Inr j, w1)
                 | Inl e \<Rightarrow>
                     if is_RequestException e
                     then (Inr (JObj []), emit [StError ''Error getting server info: '' e] w1)
                     else (Inl e, w1)))
      else if protocol self = ''stdio'' then
        (Inr (JObj [(''action'', JStr ''server_info'')]), w)
      else (Inr JNull, w))"

text \<open>
  \<^verbatim>\<open>list_tools\<close>, run to completion as \<^verbatim>\<open>asyncio.run\<close> does. The http branch returns
  what \<^verbatim>\<open>.get("tools", [])\<close> returns; the stdio branch returns the session's
  \<^verbatim>\<open>ListToolsResult\<close>.
\<close>

datatype tools_value = Json json | ListToolsResult "tool list"

definition list_tools_try :: "environment \<Rightarrow> string \<Rightarrow> exn + json" where
  "list_tools_try E url =
     (case requests_get E url of
        Inl r \<Rightarrow> Inl (RequestException r)
      | Inr resp \<Rightarrow>
          (case raise_for_status resp of
             Some e \<Rightarrow> Inl e
           | None \<Rightarrow>
               (case response_json resp of
                  Inl e \<Rightarrow> Inl e
                | Inr j \<Rightarrow> dict_get j ''tools'' (JArr []))))"

definition list_tools ::
  "environment \<Rightarrow> MCPClient \<Rightarrow> world \<Rightarrow> (exn + tools_value) \<times> MCPClient \<times> world" where
  "list_tools E self w =
     (if protocol self = ''http'' then
        (case server_url self of
           Unset \<Rightarrow> (Inl (AttributeError ''server_url''), self, w)
         | Attr u \<Rightarrow>
             let url = format_str u @ ''/list_tools'';
                 w1 = emit [HttpGet url] w
             in (case list_tools_try E url of
                   Inr v \<Rightarrow> (Inr (Json v), self, w1)
                 | Inl e \<Rightarrow>
                     if is_RequestException e
                     then (Inr (Json (JArr [])), self,
                           emit [StError ''Error listing tools: '' e] w1)
                     else (Inl e, self, w1)))
      else if protocol self = ''stdio'' then
        (case open_session E self w of
           (Inl e, self1, w1) \<Rightarrow> (Inl e, self1, w1)
         | (Inr pid, self1, w1) \<Rightarrow>
             (case session_list_tools E of
                Inl m \<Rightarrow> (Inl (LibraryError m), self1, w1)
              | Inr ts \<Rightarrow> (Inr (ListToolsResult ts), self1, emit [ToolsListed pid] w1)))
      else (Inr (Json JNull), self, w))"

text \<open>
  \<^verbatim>\<open>connect_to_server(server_script_path)\<close>. The suffix check is the first statement;
  the local \<^verbatim>\<open>command\<close> it computes afterwards is read by nothing (the assignment that
  used it is commented out), so the launch uses \<^verbatim>\<open>self.server_params\<close> as it stands.
\<close>

definition connect_to_server ::
  "environment \<Rightarrow> MCPClient \<Rightarrow> string \<Rightarrow> world \<Rightarrow> (exn + json) \<times> MCPClient \<times> world" where
  "connect_to_server E self server_script_path w =
     (let is_python = endswith server_script_path ''.py'';
          is_js = endswith server_script_path ''.js''
      in if \<not> (is_python \<or> is_js) then
           (Inl (ValueError ''Server script must be a .py or .js file''), self, w)
         else
           (case open_session E self w of
              (Inl e, self1, w1) \<Rightarrow> (Inl e, self1, w1)
            | (Inr pid, self1, w1) \<Rightarrow>
                (case session_list_tools E of
                   Inl m \<Rightarrow> (Inl (LibraryError m), self1, w1)
                 | Inr ts \<Rightarrow>
                     let w2 = emit [ToolsListed pid, Printed (map tool_name ts)] w1
                     in (case get_server_info E self1 w2 of (r, w3) \<Rightarrow> (r, self1, w3)))))"


text \<open>
  Attribute lookup on an instance: the instance's own attributes first, then what the
  class body defines. The class body of \<^verbatim>\<open>MCPClient\<close> (lines 36 to 129) defines four
  functions and nothing else; \<^verbatim>\<open>object\<close> adds only names between double underscores.
\<close>

definition MCPClient_methods :: "string list" where
  "MCPClient_methods =
     [''__init__'', ''connect_to_server'', ''get_server_info'', ''list_tools'']"

definition instance_attributes :: "MCPClient \<Rightarrow> string list" where
  "instance_attributes self =
     [''protocol'', ''process'', ''stop_event'', ''session'', ''exit_stack'']
     @ (case server_url self of Unset \<Rightarrow> [] | Attr v \<Rightarrow> [''server_url''])
     @ (case command self of Unset \<Rightarrow> [] | Attr v \<Rightarrow> [''command''])
     @ (case server_params self of Unset \<Rightarrow> [] | Attr v \<Rightarrow> [''server_params''])
     @ (case stdio self of Unset \<Rightarrow> [] | Attr v \<Rightarrow> [''stdio''])
     @ (case write_stream self of Unset \<Rightarrow> [] | Attr v \<Rightarrow> [''write''])"

datatype found = InstanceAttribute | Method

definition getattr :: "MCPClient \<Rightarrow> string \<Rightarrow> exn + found" where
  "getattr self name =
     (if name \<in> set (instance_attributes self) then Inr InstanceAttribute
      else if name \<in> set MCPClient_methods then Inr Method
      else Inl (AttributeError name))"

text \<open>
  \<^verbatim>\<open>st.session_state\<close>, as far as the module uses it: the key \<^verbatim>\<open>client\<close> (absent, \<^verbatim>\<open>None\<close>
  or a client) and the key \<^verbatim>\<open>saved_servers\<close>. \<^verbatim>\<open>on_exit\<close> is the handler registered with
  \<^verbatim>\<open>atexit\<close>; an \<^verbatim>\<open>MCPClient\<close> object is truthy. The expression
  \<^verbatim>\<open>st.session_state.client.cleanup()\<close> looks the attribute up and then calls it: the
  model returns the failed lookup, and \<open>Inr ()\<close> for a call that a successful lookup
  would make.
\<close>

record session_state =
  client :: "MCPClient option attr"
  saved_servers :: "(string \<times> json) list attr"

definition on_exit :: "session_state \<Rightarrow> exn + unit" where
  "on_exit ss =
     (case client ss of
        Unset \<Rightarrow> Inr ()
      | Attr None \<Rightarrow> Inr ()
      | Attr (Some c) \<Rightarrow>
          (case getattr c ''cleanup'' of Inl e \<Rightarrow> Inl e | Inr f \<Rightarrow> Inr ()))"

section \<open>The registry file\<close>

text \<open>
  The file system, as far as \<^verbatim>\<open>open\<close>, \<^verbatim>\<open>os.path.exists\<close> and the \<^verbatim>\<open>json\<close> module see
  it. A file's text is kept as what \<^verbatim>\<open>json.load\<close> makes of it: \<open>parsed = None\<close> is a text
  that is not JSON (\<^verbatim>\<open>json.load\<close> raises \<open>JSONDecodeError\<close>), and the text that
  \<^verbatim>\<open>json.dump(v, f, indent=2)\<close> writes is one that \<^verbatim>\<open>json.load\<close> reads back as \<open>v\<close>.
  \<^verbatim>\<open>open(path, "r")\<close> raises \<open>OSError\<close> on a file that is not readable,
  \<^verbatim>\<open>open(path, "w")\<close> on one that is not writable or cannot be created; opened for
  writing, a file loses its old text.
\<close>

record registry_file =
  readable :: bool
  writable :: bool
  parsed :: "json option"

record filesystem =
  files :: "string \<Rightarrow> registry_file option"
  creatable :: bool

definition load_saved_servers_try :: "filesystem \<Rightarrow> exn + json" where
  "load_saved_servers_try fs =
     (case files fs ''mcp_servers.json'' of
        None \<Rightarrow> Inr (JObj [])
      | Some f \<Rightarrow>
          if readable f
          then (case parsed f of None \<Rightarrow> Inl JSONDecodeError | Some j \<Rightarrow> Inr j)
          else Inl OSError)"

text \<open>\<^verbatim>\<open>load_saved_servers\<close>: the handler is \<^verbatim>\<open>except Exception\<close>, which catches every
  exception of the \<^verbatim>\<open>try\<close> body.\<close>

definition load_saved_servers :: "filesystem \<Rightarrow> world \<Rightarrow> (exn + json) \<times> world" where
  "load_saved_servers fs w =
     (case load_saved_servers_try fs of
        Inr j \<Rightarrow> (Inr j, w)
      | Inl e \<Rightarrow> (Inr (JObj []), emit [StError ''Error loading saved servers: '' e] w))"

definition save_servers_try :: "json \<Rightarrow> filesystem \<Rightarrow> (exn + bool) \<times> filesystem" where
  "save_servers_try servers fs =
     (case files fs ''mcp_servers.json'' of
        None \<Rightarrow>
          if creatable fs
          then (Inr True,
                fs\<lparr>files := (files fs)(''mcp_servers.json'' \<mapsto>
                       \<lparr>readable = True, writable = True, parsed = Some servers\<rparr>)\<rparr>)
          else (Inl OSError, fs)
      | Some f \<Rightarrow>
          if writable f
          then (Inr True,
                fs\<lparr>files := (files fs)(''mcp_servers.json'' \<mapsto> f\<lparr>parsed := Some servers\<rparr>)\<rparr>)
          else (Inl OSError, fs))"

definition save_servers ::
  "json \<Rightarrow> filesystem \<Rightarrow> world \<Rightarrow> (exn + bool) \<times> filesystem \<times> world" where
  "save_servers servers fs w =
     (case save_servers_try servers fs of
        (Inr b, fs1) \<Rightarrow> (Inr b, fs1, w)
      | (Inl e, fs1) \<Rightarrow> (Inr False, fs1, emit [StError ''Error saving servers: '' e] w))"

text \<open>
  The "Add Server" form of \<^verbatim>\<open>main\<close> (lines 346 to 372), once submitted: the four checks,
  the new descriptor, the assignment \<^verbatim>\<open>saved_servers[name] = server_data\<close> and the save.
  \<open>new_protocol\<close> is the radio's choice, \<^verbatim>\<open>"HTTP"\<close> or \<^verbatim>\<open>"stdio"\<close>; \<^verbatim>\<open>str.lower\<close> is
  written for ASCII.
\<close>

definition lower_char :: "char \<Rightarrow> char" where
  "lower_char c =
     (case map_of (zip ''ABCDEFGHIJKLMNOPQRSTUVWXYZ'' ''abcdefghijklmnopqrstuvwxyz'') c of
        None \<Rightarrow> c
      | Some l \<Rightarrow> l)"

definition lower :: "string \<Rightarrow> string" where
  "lower s = map lower_char s"

definition submit_add_server ::
  "string \<Rightarrow> string \<Rightarrow> string \<Rightarrow> string \<Rightarrow> string \<Rightarrow> (string \<times> json) list
     \<Rightarrow> filesystem \<Rightarrow> world \<Rightarrow> (string \<times> json) list \<times> filesystem \<times> world" where
  "submit_add_server new_protocol new_server_name new_server_url new_server_command
       new_server_program saved fs w =
     (if new_server_name = [] then
        (saved, fs, emit [StWarning ''Please provide a name for the server''] w)
      else if new_protocol = ''HTTP'' \<and> new_server_url = [] then
        (saved, fs, emit [StWarning ''Please provide a URL for the HTTP server''] w)
      else if new_protocol = ''stdio'' \<and> new_server_command = [] then
        (saved, fs, emit [StWarning ''Please provide a command for the stdio server''] w)
      else if new_protocol = ''stdio'' \<and> new_server_program = [] then
        (saved, fs,
         emit [StWarning
           ''Please provide a server program with absolute path for the stdio server''] w)
      else
        let server_data0 = [(''protocol'', JStr (lower new_protocol))];
            server_data =
              (if new_protocol = ''HTTP''
               then AList.update ''url'' (JStr new_server_url) server_data0
               else AList.update ''program'' (JStr new_server_program)
                      (AList.update ''command'' (JStr new_server_command) server_data0));
            saved1 = AList.update new_server_name (JObj server_data) saved
        in (case save_servers (JObj saved1) fs w of
              (Inr True, fs1, w1) \<Rightarrow>
                (saved1, fs1,
                 emit [StSuccess (''Server '' @ [CHR 0x27] @ new_server_name @ [CHR 0x27]
                                  @ '' added successfully''), StRerun] w1)
            | (r, fs1, w1) \<Rightarrow>
                (saved1, fs1, emit [StErrorText ''Failed to save the server''] w1)))"

section \<open>Inputs for the concrete runs\<close>

text \<open>
  A world in which nothing has happened yet; the launch parameters \<^verbatim>\<open>__init__\<close> writes;
  an outside in which every step succeeds (each HTTP request is answered with \<open>resp\<close>,
  each subprocess starts, each session opens, initializes and lists \<open>ts\<close>) and one in
  which no HTTP server can be reached; the clients \<^verbatim>\<open>__init__\<close> returns for the two
  protocols; a directory without the registry file and one whose registry file is not
  JSON; and the registry that holds the one entry \<^verbatim>\<open>local\<close>.
\<close>

definition idle_world :: world where
  "idle_world = \<lparr>events = [], next_pid = 0\<rparr>"

definition uv_parameters :: StdioServerParameters where
  "uv_parameters =
     \<lparr>sp_command = ''uv'', sp_args = [''run'', ''OneMCPServer.py''], sp_env = None\<rparr>"

definition serving_environment :: "response \<Rightarrow> tool list \<Rightarrow> environment" where
  "serving_environment resp ts =
     \<lparr>requests_get = (\<lambda>url. Inr resp), stdio_client = (\<lambda>sp. None),
      ClientSession_enter = None, session_initialize = None,
      session_list_tools = Inr ts\<rparr>"

definition unreachable_environment :: environment where
  "unreachable_environment =
     \<lparr>requests_get = (\<lambda>url. Inl ConnectionError), stdio_client = (\<lambda>sp. None),
      ClientSession_enter = None, session_initialize = None,
      session_list_tools = Inr []\<rparr>"

definition fresh_http_client :: "string option \<Rightarrow> MCPClient" where
  "fresh_http_client endpoint =
     \<lparr>protocol = ''http'', process = None, stop_event = None, session = None,
      exit_stack = [], server_url = Attr endpoint, command = Unset,
      server_params = Unset, stdio = Unset, write_stream = Unset\<rparr>"

definition fresh_stdio_client :: "string option \<Rightarrow> MCPClient" where
  "fresh_stdio_client cmd =
     \<lparr>protocol = ''stdio'', process = None, stop_event = None, session = None,
      exit_stack = [], server_url = Unset, command = Attr cmd,
      server_params = Attr uv_parameters, stdio = Unset, write_stream = Unset\<rparr>"

definition empty_filesystem :: filesystem where
  "empty_filesystem = \<lparr>files = (\<lambda>path. None), creatable = True\<rparr>"

definition corrupt_filesystem :: filesystem where
  "corrupt_filesystem =
     \<lparr>files = (\<lambda>path. if path = ''mcp_servers.json''
                       then Some \<lparr>readable = True, writable = True, parsed = None\<rparr>
                       else None),
      creatable = True\<rparr>"

definition local_entry :: "(string \<times> json) list" where
  "local_entry =
     [(''local'', JObj [(''protocol'', JStr ''stdio''), (''command'', JStr ''run''),
                        (''program'', JStr ''/abs/path/server'')])]"

section \<open>Strings\<close>

text \<open>\<open>endswith\<close> is the library's suffix relation; \<open>rstrip\<close> with one character removes
  a run of that character from the end, and what it returns does not end in it.\<close>

lemma endswith_iff_suffix: "endswith s suf \<longleftrightarrow> suffix suf s"
proof
  assume "endswith s suf"
  then have "s = take (length s - length suf) s @ suf"
    by (metis endswith_def append_take_drop_id)
  then show "suffix suf s"
    by (metis suffixI)
next
  assume "suffix suf s"
  then obtain zs where "s = zs @ suf"
    by (auto simp: suffix_def)
  then show "endswith s suf"
    by (simp add: endswith_def)
qed

lemma rstrip_decompose: "\<exists>n. s = rstrip s [c] @ replicate n c"
proof -
  let ?P = "\<lambda>x. x \<in> set [c]"
  have "rev s = takeWhile ?P (rev s) @ dropWhile ?P (rev s)"
    by simp
  then have "s = rev (dropWhile ?P (rev s)) @ rev (takeWhile ?P (rev s))"
    by (metis rev_append rev_rev_ident)
  moreover have "rev (takeWhile ?P (rev s)) = replicate (length (takeWhile ?P (rev s))) c"
  proof -
    have "\<forall>x \<in> set (takeWhile ?P (rev s)). x = c"
      by (auto dest: set_takeWhileD)
    then have "takeWhile ?P (rev s) = replicate (length (takeWhile ?P (rev s))) c"
      by (simp add: replicate_length_same)
    then show ?thesis
      by (metis rev_replicate)
  qed
  ultimately show ?thesis
    unfolding rstrip_def by metis
qed

lemma rstrip_no_trailing: "\<not> endswith (rstrip s [c]) [c]"
proof
  assume "endswith (rstrip s [c]) [c]"
  then obtain zs where "rstrip s [c] = zs @ [c]"
    by (auto simp add: endswith_iff_suffix suffix_def)
  then have "dropWhile (\<lambda>x. x \<in> set [c]) (rev s) = c # rev zs"
    by (metis rstrip_def rev_rev_ident rev_append rev.simps(2) rev.simps(1) append_Cons append_Nil)
  then have "\<not> (c \<in> set [c])"
    by (metis hd_dropWhile list.sel(1) list.distinct(1))
  then show False
    by simp
qed

section \<open>cleanup\<close>

text \<open>
  C1. The spec asks that \<^verbatim>\<open>cleanup()\<close> succeed on every client, in every state, any
  number of times. The class defines no \<^verbatim>\<open>cleanup\<close>, and no assignment creates such an
  attribute: on every client the lookup raises \<^verbatim>\<open>AttributeError\<close>, and so does the exit
  handler \<^verbatim>\<open>on_exit\<close> (and line 185 of \<^verbatim>\<open>main\<close>) as soon as a client is held.
\<close>

theorem cleanup_lookup_fails:
  "getattr c ''cleanup'' = Inl (AttributeError ''cleanup'')
   \<and> on_exit \<lparr>client = Attr (Some c), saved_servers = s\<rparr> = Inl (AttributeError ''cleanup'')"
  by (simp add: on_exit_def getattr_def instance_attributes_def MCPClient_methods_def
      split: attr.splits)

section \<open>Construction\<close>

lemma init_http:
  "MCPClient_init url cmd program ''http'' w =
     (Inr (fresh_http_client
             (case url of None \<Rightarrow> None
              | Some u \<Rightarrow> if u = [] then None else Some (rstrip u ''/''))), w)"
  by (simp add: MCPClient_init_def fresh_http_client_def)

text \<open>
  C2, as the spec states it: construction with \<^verbatim>\<open>protocol="http"\<close> and no URL, or with
  \<^verbatim>\<open>protocol="stdio"\<close> and no command or program, fails. On the code both constructions
  return a client: the http one holds the endpoint \<^verbatim>\<open>None\<close>, the stdio one the command
  \<^verbatim>\<open>None\<close>.
\<close>

theorem init_accepts_missing_parameters:
  "MCPClient_init None None None ''http'' idle_world =
     (Inr \<lparr>protocol = ''http'', process = None, stop_event = None, session = None,
           exit_stack = [], server_url = Attr None, command = Unset,
           server_params = Unset, stdio = Unset, write_stream = Unset\<rparr>, idle_world)
   \<and> MCPClient_init None None None ''stdio'' idle_world =
     (Inr \<lparr>protocol = ''stdio'', process = None, stop_event = None, session = None,
           exit_stack = [], server_url = Unset, command = Attr None,
           server_params = Attr uv_parameters, stdio = Unset, write_stream = Unset\<rparr>,
      idle_world)"
  by (simp add: MCPClient_init_def uv_parameters_def)

text \<open>
  C2, amended: construction leaves the world as it was, whatever the arguments; it
  returns a client whenever the protocol is \<^verbatim>\<open>"http"\<close> or \<^verbatim>\<open>"stdio"\<close>, also with the
  URL, the command or the program missing; and for every other protocol it raises
  \<^verbatim>\<open>ValueError("Unsupported protocol: ...")\<close>.
\<close>

theorem init_fails_only_on_unsupported_protocol:
  "snd (MCPClient_init url cmd program proto w) = w
   \<and> (proto = ''http'' \<or> proto = ''stdio''
        \<longrightarrow> (\<exists>c. fst (MCPClient_init url cmd program proto w) = Inr c))
   \<and> (proto \<noteq> ''http'' \<and> proto \<noteq> ''stdio''
        \<longrightarrow> fst (MCPClient_init url cmd program proto w)
              = Inl (ValueError (''Unsupported protocol: '' @ proto)))"
  by (simp add: MCPClient_init_def Let_def)

theorem init_fails_only_on_unsupported_protocol_witness:
  "snd (MCPClient_init None None None ''http'' idle_world) = idle_world
   \<and> (\<exists>c. fst (MCPClient_init None None None ''http'' idle_world) = Inr c)
   \<and> (\<exists>c. fst (MCPClient_init None None None ''stdio'' idle_world) = Inr c)
   \<and> fst (MCPClient_init None None None ''ftp'' idle_world)
       = Inl (ValueError ''Unsupported protocol: ftp'')"
  using init_fails_only_on_unsupported_protocol [of None None None "''http''" idle_world]
    init_fails_only_on_unsupported_protocol [of None None None "''stdio''" idle_world]
    init_fails_only_on_unsupported_protocol [of None None None "''ftp''" idle_world]
  by simp

section \<open>The stdio launch\<close>

text \<open>
  C3. The spec asks that the subprocess be spawned with the command and arguments the
  client was constructed with. Whatever \<open>cmd\<close> and \<open>program\<close> the constructor receives
  (for instance \<^verbatim>\<open>command="python", program="/abs/path/server.py"\<close>), the first
  \<^verbatim>\<open>list_tools\<close> spawns \<^verbatim>\<open>uv run OneMCPServer.py\<close>.
\<close>

theorem stdio_launch_ignores_configuration:
  "(case MCPClient_init url cmd program ''stdio'' idle_world of
      (Inr c, w) \<Rightarrow> events (snd (snd (list_tools (serving_environment resp ts) c w)))
    | (Inl e, w) \<Rightarrow> [])
   = [Spawned 0 \<lparr>sp_command = ''uv'', sp_args = [''run'', ''OneMCPServer.py''], sp_env = None\<rparr>,
      SessionOpened 0, Initialized 0, ToolsListed 0]"
  by (simp add: MCPClient_init_def list_tools_def open_session_def serving_environment_def
      idle_world_def emit_def Let_def)

section \<open>Sessions over stdio\<close>

text \<open>When the library raises nothing, opening a session spawns one subprocess, pushes
  the transport and the session on the exit stack and stores the streams and the
  session, whatever the client held before.\<close>

lemma open_session_succeeds:
  assumes "server_params c = Attr sp" "stdio_client E sp = None"
    "ClientSession_enter E = None" "session_initialize E = None"
  shows "open_session E c w =
     (Inr (next_pid w),
      c\<lparr>exit_stack := exit_stack c @ [StdioTransport (next_pid w), Session (next_pid w)],
        stdio := Attr (ReadStream (next_pid w)),
        write_stream := Attr (WriteStream (next_pid w)),
        session := Some (next_pid w)\<rparr>,
      w\<lparr>events := events w @ [Spawned (next_pid w) sp, SessionOpened (next_pid w),
                                Initialized (next_pid w)],
        next_pid := Suc (next_pid w)\<rparr>)"
  using assms by (simp add: open_session_def emit_def Let_def)

lemma list_tools_stdio_once:
  assumes "protocol c = ''stdio''" "server_params c = Attr sp" "stdio_client E sp = None"
    "ClientSession_enter E = None" "session_initialize E = None"
    "session_list_tools E = Inr ts"
  shows "list_tools E c w =
     (Inr (ListToolsResult ts),
      c\<lparr>exit_stack := exit_stack c @ [StdioTransport (next_pid w), Session (next_pid w)],
        stdio := Attr (ReadStream (next_pid w)),
        write_stream := Attr (WriteStream (next_pid w)),
        session := Some (next_pid w)\<rparr>,
      w\<lparr>events := events w @ [Spawned (next_pid w) sp, SessionOpened (next_pid w),
                                Initialized (next_pid w), ToolsListed (next_pid w)],
        next_pid := Suc (next_pid w)\<rparr>)"
  using assms open_session_succeeds [of c sp E w]
  by (simp add: list_tools_def emit_def)

text \<open>
  C4, as the spec states it: the second of two \<^verbatim>\<open>list_tools()\<close> calls reuses the open
  session and does not relaunch the subprocess. On the code, a client that has just
  listed its tools holds session 0, and its second call spawns subprocess 1 and opens and
  initializes a second session.
\<close>

theorem second_list_tools_relaunches:
  "(case MCPClient_init None (Some ''run'') (Some ''/abs/path/server'') ''stdio'' idle_world of
      (Inr c, w) \<Rightarrow>
        (case list_tools (serving_environment \<lparr>status_code = 200, body = None\<rparr> []) c w of
           (r1, c1, w1) \<Rightarrow>
             (session c1,
              events (snd (snd (list_tools
                 (serving_environment \<lparr>status_code = 200, body = None\<rparr> []) c1 w1)))))
    | (Inl e, w) \<Rightarrow> (None, []))
   = (Some 0,
      [Spawned 0 uv_parameters, SessionOpened 0, Initialized 0, ToolsListed 0,
       Spawned 1 uv_parameters, SessionOpened 1, Initialized 1, ToolsListed 1])"
  by (simp add: MCPClient_init_def list_tools_def open_session_def serving_environment_def
      idle_world_def emit_def Let_def uv_parameters_def)

text \<open>
  C4, amended: on a stdio client, with a library that raises nothing, every
  \<^verbatim>\<open>list_tools()\<close> call, whether a session is open or not, launches the subprocess, opens
  a session, initializes it, then lists the tools and returns the session's answer; the
  second of two successive calls does the same again, with a new subprocess and a new
  session that replaces the first in \<^verbatim>\<open>self.session\<close>, both staying on the exit stack.
\<close>

theorem list_tools_stdio_opens_a_session_each_time:
  assumes "protocol c = ''stdio''" and "server_params c = Attr sp"
    and "stdio_client E sp = None" and "ClientSession_enter E = None"
    and "session_initialize E = None" and "session_list_tools E = Inr ts"
    and "list_tools E c w = (r1, c1, w1)" and "list_tools E c1 w1 = (r2, c2, w2)"
  shows "r1 = Inr (ListToolsResult ts) \<and> r2 = Inr (ListToolsResult ts)
    \<and> session c1 = Some (next_pid w) \<and> session c2 = Some (Suc (next_pid w))
    \<and> events w1 = events w @ [Spawned (next_pid w) sp, SessionOpened (next_pid w),
                                Initialized (next_pid w), ToolsListed (next_pid w)]
    \<and> events w2 = events w1 @ [Spawned (Suc (next_pid w)) sp, SessionOpened (Suc (next_pid w)),
                                 Initialized (Suc (next_pid w)), ToolsListed (Suc (next_pid w))]
    \<and> exit_stack c2 = exit_stack c @ [StdioTransport (next_pid w), Session (next_pid w),
                                       StdioTransport (Suc (next_pid w)), Session (Suc (next_pid w))]"
proof -
  note first = list_tools_stdio_once [OF assms(1-6), of w]
  from first assms(7) have r1: "r1 = Inr (ListToolsResult ts)"
    and c1: "c1 = c\<lparr>exit_stack := exit_stack c @ [StdioTransport (next_pid w), Session (next_pid w)],
        stdio := Attr (ReadStream (next_pid w)),
        write_stream := Attr (WriteStream (next_pid w)),
        session := Some (next_pid w)\<rparr>"
    and w1: "w1 = w\<lparr>events := events w @ [Spawned (next_pid w) sp, SessionOpened (next_pid w),
                                Initialized (next_pid w), ToolsListed (next_pid w)],
        next_pid := Suc (next_pid w)\<rparr>"
    by simp_all
  have p1: "protocol c1 = ''stdio''" and sp1: "server_params c1 = Attr sp"
    using assms(1,2) by (simp_all add: c1)
  note second = list_tools_stdio_once [OF p1 sp1 assms(3-6), of w1]
  from second assms(8) have r2: "r2 = Inr (ListToolsResult ts)"
    and c2: "session c2 = Some (next_pid w1)"
      "exit_stack c2 = exit_stack c1 @ [StdioTransport (next_pid w1), Session (next_pid w1)]"
    and w2: "events w2 = events w1 @ [Spawned (next_pid w1) sp, SessionOpened (next_pid w1),
                                Initialized (next_pid w1), ToolsListed (next_pid w1)]"
    by auto
  have n1: "next_pid w1 = Suc (next_pid w)"
    by (simp add: w1)
  show ?thesis
    using r1 r2 c2 w2 n1 by (simp add: c1 w1)
qed

theorem list_tools_stdio_opens_a_session_each_time_witness:
  "protocol (fresh_stdio_client (Some ''run'')) = ''stdio''
   \<and> server_params (fresh_stdio_client (Some ''run'')) = Attr uv_parameters
   \<and> stdio_client (serving_environment \<lparr>status_code = 200, body = None\<rparr> []) uv_parameters = None
   \<and> ClientSession_enter (serving_environment \<lparr>status_code = 200, body = None\<rparr> []) = None
   \<and> session_initialize (serving_environment \<lparr>status_code = 200, body = None\<rparr> []) = None
   \<and> session_list_tools (serving_environment \<lparr>status_code = 200, body = None\<rparr> []) = Inr []
   \<and> fst (list_tools (serving_environment \<lparr>status_code = 200, body = None\<rparr> [])
        (fresh_stdio_client (Some ''run'')) idle_world) = Inr (ListToolsResult [])
   \<and> events (snd (snd (list_tools (serving_environment \<lparr>status_code = 200, body = None\<rparr> [])
        (fresh_stdio_client (Some ''run'')) idle_world)))
      = [Spawned 0 uv_parameters, SessionOpened 0, Initialized 0, ToolsListed 0]"
proof -
  let ?E = "serving_environment \<lparr>status_code = 200, body = None\<rparr> []"
  let ?c = "fresh_stdio_client (Some ''run'')"
  let ?first = "list_tools ?E ?c idle_world"
  let ?second = "list_tools ?E (fst (snd ?first)) (snd (snd ?first))"
  have h1: "protocol ?c = ''stdio''" and h2: "server_params ?c = Attr uv_parameters"
    by (simp_all add: fresh_stdio_client_def)
  have h3: "stdio_client ?E uv_parameters = None" and h4: "ClientSession_enter ?E = None"
    and h5: "session_initialize ?E = None" and h6: "session_list_tools ?E = Inr []"
    by (simp_all add: serving_environment_def)
  have h7: "?first = (fst ?first, fst (snd ?first), snd (snd ?first))"
    and h8: "?second = (fst ?second, fst (snd ?second), snd (snd ?second))"
    by simp_all
  from list_tools_stdio_opens_a_session_each_time [OF h1 h2 h3 h4 h5 h6 h7 h8]
  have "fst ?first = Inr (ListToolsResult [])"
    and "events (snd (snd ?first)) = events idle_world @
           [Spawned (next_pid idle_world) uv_parameters, SessionOpened (next_pid idle_world),
            Initialized (next_pid idle_world), ToolsListed (next_pid idle_world)]"
    by blast+
  then show ?thesis
    using h1 h2 h3 h4 h5 h6 by (simp add: idle_world_def)
qed

section \<open>The HTTP operations\<close>

text \<open>
  C5, as stated: whenever the body lacks a \<^verbatim>\<open>tools\<close> array, \<^verbatim>\<open>list_tools()\<close> returns an
  empty sequence together with a reported error. On the code, a 200 response whose body
  is the JSON object \<^verbatim>\<open>{}\<close> yields the empty list through the default of
  \<^verbatim>\<open>.get("tools", [])\<close>, and the only event is the request: nothing is reported.
\<close>

theorem list_tools_missing_tools_key_is_silent:
  "(case MCPClient_init (Some ''http://localhost:8000/'') None None ''http'' idle_world of
      (Inr c, w) \<Rightarrow>
        (case list_tools (serving_environment \<lparr>status_code = 200, body = Some (JObj [])\<rparr> [])
                c w of
           (r, c1, w1) \<Rightarrow> (r, events w1))
    | (Inl e, w) \<Rightarrow> (Inl e, []))
   = (Inr (Json (JArr [])), [HttpGet ''http://localhost:8000/list_tools''])"
  by (simp add: MCPClient_init_def list_tools_def list_tools_try_def raise_for_status_def
      response_json_def serving_environment_def idle_world_def emit_def Let_def rstrip_def)

text \<open>
  C5, amended: on an http client \<^verbatim>\<open>list_tools()\<close> issues \<^verbatim>\<open>GET {endpoint}/list_tools\<close>.
  When the request raises, when the status is an error status (400 to 599), or when the
  body is missing or is not JSON, it returns the empty list and reports the error with
  \<^verbatim>\<open>st.error\<close>. When the body is a JSON object without the key \<^verbatim>\<open>tools\<close>, it returns the
  empty list and reports nothing. In all four cases the client is unchanged and no
  exception reaches the caller.
\<close>

theorem list_tools_http_outcomes:
  assumes "protocol c = ''http''" and "server_url c = Attr u"
  shows
    "(requests_get E (format_str u @ ''/list_tools'') = Inl x
        \<longrightarrow> list_tools E c w =
              (Inr (Json (JArr [])), c,
               emit [HttpGet (format_str u @ ''/list_tools''),
                     StError ''Error listing tools: '' (RequestException x)] w))
   \<and> (requests_get E (format_str u @ ''/list_tools'') = Inr resp
        \<and> 400 \<le> status_code resp \<and> status_code resp < 600
        \<longrightarrow> list_tools E c w =
              (Inr (Json (JArr [])), c,
               emit [HttpGet (format_str u @ ''/list_tools''),
                     StError ''Error listing tools: ''
                       (RequestException (HTTPError (status_code resp)))] w))
   \<and> (requests_get E (format_str u @ ''/list_tools'') = Inr resp
        \<and> (status_code resp < 400 \<or> 600 \<le> status_code resp) \<and> body resp = None
        \<longrightarrow> list_tools E c w =
              (Inr (Json (JArr [])), c,
               emit [HttpGet (format_str u @ ''/list_tools''),
                     StError ''Error listing tools: '' (RequestException InvalidJSONError)] w))
   \<and> (requests_get E (format_str u @ ''/list_tools'') = Inr resp
        \<and> (status_code resp < 400 \<or> 600 \<le> status_code resp)
        \<and> body resp = Some (JObj kvs) \<and> map_of kvs ''tools'' = None
        \<longrightarrow> list_tools E c w =
              (Inr (Json (JArr [])), c, emit [HttpGet (format_str u @ ''/list_tools'')] w))"
  using assms
  by (auto simp add: list_tools_def list_tools_try_def raise_for_status_def response_json_def
      emit_def Let_def)

theorem list_tools_http_outcomes_witness:
  "protocol (fresh_http_client (Some ''http://localhost:8000'')) = ''http''
   \<and> server_url (fresh_http_client (Some ''http://localhost:8000''))
       = Attr (Some ''http://localhost:8000'')
   \<and> list_tools unreachable_environment
        (fresh_http_client (Some ''http://localhost:8000'')) idle_world =
       (Inr (Json (JArr [])), fresh_http_client (Some ''http://localhost:8000''),
        \<lparr>events = [HttpGet ''http://localhost:8000/list_tools'',
                   StError ''Error listing tools: '' (RequestException ConnectionError)],
         next_pid = 0\<rparr>)
   \<and> list_tools (serving_environment \<lparr>status_code = 404, body = None\<rparr> [])
        (fresh_http_client (Some ''http://localhost:8000'')) idle_world =
       (Inr (Json (JArr [])), fresh_http_client (Some ''http://localhost:8000''),
        \<lparr>events = [HttpGet ''http://localhost:8000/list_tools'',
                   StError ''Error listing tools: '' (RequestException (HTTPError 404))],
         next_pid = 0\<rparr>)
   \<and> list_tools (serving_environment \<lparr>status_code = 200, body = None\<rparr> [])
        (fresh_http_client (Some ''http://localhost:8000'')) idle_world =
       (Inr (Json (JArr [])), fresh_http_client (Some ''http://localhost:8000''),
        \<lparr>events = [HttpGet ''http://localhost:8000/list_tools'',
                   StError ''Error listing tools: '' (RequestException InvalidJSONError)],
         next_pid = 0\<rparr>)
   \<and> list_tools (serving_environment \<lparr>status_code = 200, body = Some (JObj [])\<rparr> [])
        (fresh_http_client (Some ''http://localhost:8000'')) idle_world =
       (Inr (Json (JArr [])), fresh_http_client (Some ''http://localhost:8000''),
        \<lparr>events = [HttpGet ''http://localhost:8000/list_tools''], next_pid = 0\<rparr>)"
proof -
  let ?c = "fresh_http_client (Some ''http://localhost:8000'')"
  have h1: "protocol ?c = ''http''"
    and h2: "server_url ?c = Attr (Some ''http://localhost:8000'')"
    by (simp_all add: fresh_http_client_def)
  note outcomes = list_tools_http_outcomes [OF h1 h2, where w = idle_world]
  have a: "list_tools unreachable_environment ?c idle_world =
       (Inr (Json (JArr [])), ?c,
        emit [HttpGet ''http://localhost:8000/list_tools'',
              StError ''Error listing tools: '' (RequestException ConnectionError)] idle_world)"
    using outcomes [of unreachable_environment ConnectionError]
    by (simp add: unreachable_environment_def)
  have b: "list_tools (serving_environment \<lparr>status_code = 404, body = None\<rparr> []) ?c idle_world =
       (Inr (Json (JArr [])), ?c,
        emit [HttpGet ''http://localhost:8000/list_tools'',
              StError ''Error listing tools: '' (RequestException (HTTPError 404))] idle_world)"
    using outcomes [of "serving_environment \<lparr>status_code = 404, body = None\<rparr> []" _
                       "\<lparr>status_code = 404, body = None\<rparr>"]
    by (simp add: serving_environment_def)
  have c: "list_tools (serving_environment \<lparr>status_code = 200, body = None\<rparr> []) ?c idle_world =
       (Inr (Json (JArr [])), ?c,
        emit [HttpGet ''http://localhost:8000/list_tools'',
              StError ''Error listing tools: '' (RequestException InvalidJSONError)] idle_world)"
    using outcomes [of "serving_environment \<lparr>status_code = 200, body = None\<rparr> []" _
                       "\<lparr>status_code = 200, body = None\<rparr>"]
    by (simp add: serving_environment_def)
  have d: "list_tools (serving_environment \<lparr>status_code = 200, body = Some (JObj [])\<rparr> []) ?c
             idle_world =
       (Inr (Json (JArr [])), ?c, emit [HttpGet ''http://localhost:8000/list_tools''] idle_world)"
    using outcomes [of "serving_environment \<lparr>status_code = 200, body = Some (JObj [])\<rparr> []" _
                       "\<lparr>status_code = 200, body = Some (JObj [])\<rparr>" "[]"]
    by (simp add: serving_environment_def)
  from h1 h2 a b c d show ?thesis
    by (simp add: emit_def idle_world_def)
qed

text \<open>
  C6, as stated: whenever the server returns a status outside 200 to 299,
  \<^verbatim>\<open>get_server_info()\<close> returns an empty result and reports an error. On the code, a
  response with status 300 and the body \<^verbatim>\<open>{"name": "x"}\<close> passes \<^verbatim>\<open>raise_for_status()\<close>:
  the body is returned and nothing is reported.
\<close>

theorem get_server_info_passes_status_300:
  "(case MCPClient_init (Some ''http://localhost:8000/'') None None ''http'' idle_world of
      (Inr c, w) \<Rightarrow>
        (case get_server_info
                (serving_environment
                   \<lparr>status_code = 300, body = Some (JObj [(''name'', JStr ''x'')])\<rparr> []) c w of
           (r, w1) \<Rightarrow> (r, events w1))
    | (Inl e, w) \<Rightarrow> (Inl e, []))
   = (Inr (JObj [(''name'', JStr ''x'')]), [HttpGet ''http://localhost:8000/server_info''])"
  by (simp add: MCPClient_init_def get_server_info_def get_server_info_try_def
      raise_for_status_def response_json_def serving_environment_def idle_world_def emit_def
      Let_def rstrip_def)

text \<open>
  C6, amended: on an http client, when the request to \<^verbatim>\<open>{endpoint}/server_info\<close> raises
  (the server cannot be reached) or the server answers with an error status, 400 to 599,
  \<^verbatim>\<open>get_server_info()\<close> returns the empty dict and reports the error with \<^verbatim>\<open>st.error\<close>;
  no exception reaches the caller.
\<close>

theorem get_server_info_failure_is_reported:
  assumes "protocol c = ''http''" and "server_url c = Attr u"
  shows
    "(requests_get E (format_str u @ ''/server_info'') = Inl x
        \<longrightarrow> get_server_info E c w =
              (Inr (JObj []),
               emit [HttpGet (format_str u @ ''/server_info''),
                     StError ''Error getting server info: '' (RequestException x)] w))
   \<and> (requests_get E (format_str u @ ''/server_info'') = Inr resp
        \<and> 400 \<le> status_code resp \<and> status_code resp < 600
        \<longrightarrow> get_server_info E c w =
              (Inr (JObj []),
               emit [HttpGet (format_str u @ ''/server_info''),
                     StError ''Error getting server info: ''
                       (RequestException (HTTPError (status_code resp)))] w))"
  using assms
  by (auto simp add: get_server_info_def get_server_info_try_def raise_for_status_def
      response_json_def emit_def Let_def)

theorem get_server_info_failure_is_reported_witness:
  "protocol (fresh_http_client (Some ''http://localhost:8000'')) = ''http''
   \<and> server_url (fresh_http_client (Some ''http://localhost:8000''))
       = Attr (Some ''http://localhost:8000'')
   \<and> get_server_info unreachable_environment
        (fresh_http_client (Some ''http://localhost:8000'')) idle_world =
       (Inr (JObj []),
        \<lparr>events = [HttpGet ''http://localhost:8000/server_info'',
                   StError ''Error getting server info: '' (RequestException ConnectionError)],
         next_pid = 0\<rparr>)
   \<and> get_server_info (serving_environment \<lparr>status_code = 503, body = None\<rparr> [])
        (fresh_http_client (Some ''http://localhost:8000'')) idle_world =
       (Inr (JObj []),
        \<lparr>events = [HttpGet ''http://localhost:8000/server_info'',
                   StError ''Error getting server info: '' (RequestException (HTTPError 503))],
         next_pid = 0\<rparr>)"
proof -
  let ?c = "fresh_http_client (Some ''http://localhost:8000'')"
  have h1: "protocol ?c = ''http''"
    and h2: "server_url ?c = Attr (Some ''http://localhost:8000'')"
    by (simp_all add: fresh_http_client_def)
  note reported = get_server_info_failure_is_reported [OF h1 h2, where w = idle_world]
  have a: "get_server_info unreachable_environment ?c idle_world =
       (Inr (JObj []),
        emit [HttpGet ''http://localhost:8000/server_info'',
              StError ''Error getting server info: '' (RequestException ConnectionError)]
          idle_world)"
    using reported [of unreachable_environment ConnectionError]
    by (simp add: unreachable_environment_def)
  have b: "get_server_info (serving_environment \<lparr>status_code = 503, body = None\<rparr> []) ?c
             idle_world =
       (Inr (JObj []),
        emit [HttpGet ''http://localhost:8000/server_info'',
              StError ''Error getting server info: '' (RequestException (HTTPError 503))]
          idle_world)"
    using reported [of "serving_environment \<lparr>status_code = 503, body = None\<rparr> []" _
                       "\<lparr>status_code = 503, body = None\<rparr>"]
    by (simp add: serving_environment_def)
  from h1 h2 a b show ?thesis
    by (simp add: emit_def idle_world_def)
qed

section \<open>The registry\<close>

text \<open>
  C7. When the registry file is missing, \<^verbatim>\<open>load_saved_servers\<close> returns the empty dict
  and leaves the world as it was; when the file is there and its text is not JSON, or it
  cannot be read, the function returns the empty dict and reports the error. In every
  case the result is a value, not an exception.
\<close>

theorem load_saved_servers_missing_or_corrupt:
  "(files fs ''mcp_servers.json'' = None
      \<longrightarrow> load_saved_servers fs w = (Inr (JObj []), w))
   \<and> (files fs ''mcp_servers.json'' = Some f \<and> readable f \<and> parsed f = None
      \<longrightarrow> load_saved_servers fs w =
            (Inr (JObj []), emit [StError ''Error loading saved servers: '' JSONDecodeError] w))
   \<and> (files fs ''mcp_servers.json'' = Some f \<and> \<not> readable f
      \<longrightarrow> load_saved_servers fs w =
            (Inr (JObj []), emit [StError ''Error loading saved servers: '' OSError] w))"
  by (simp add: load_saved_servers_def load_saved_servers_try_def)

theorem load_saved_servers_missing_or_corrupt_witness:
  "files empty_filesystem ''mcp_servers.json'' = None
   \<and> load_saved_servers empty_filesystem idle_world = (Inr (JObj []), idle_world)
   \<and> files corrupt_filesystem ''mcp_servers.json''
       = Some \<lparr>readable = True, writable = True, parsed = None\<rparr>
   \<and> load_saved_servers corrupt_filesystem idle_world =
       (Inr (JObj []),
        \<lparr>events = [StError ''Error loading saved servers: '' JSONDecodeError], next_pid = 0\<rparr>)"
proof -
  have missing: "files empty_filesystem ''mcp_servers.json'' = None"
    by (simp add: empty_filesystem_def)
  have corrupt: "files corrupt_filesystem ''mcp_servers.json''
       = Some \<lparr>readable = True, writable = True, parsed = None\<rparr>"
    by (simp add: corrupt_filesystem_def)
  from load_saved_servers_missing_or_corrupt [of empty_filesystem idle_world] missing
  have a: "load_saved_servers empty_filesystem idle_world = (Inr (JObj []), idle_world)"
    by blast
  from load_saved_servers_missing_or_corrupt
         [of corrupt_filesystem idle_world "\<lparr>readable = True, writable = True, parsed = None\<rparr>"]
       corrupt
  have b: "load_saved_servers corrupt_filesystem idle_world =
       (Inr (JObj []), emit [StError ''Error loading saved servers: '' JSONDecodeError] idle_world)"
    by simp
  from missing corrupt a b show ?thesis
    by (simp add: emit_def idle_world_def)
qed

text \<open>The three steps of the round trip: a save into storage that can be opened writes
  the file; a load of a readable file that holds \<open>m\<close> returns \<open>m\<close>; and saving \<open>m\<close> over
  a file that holds \<open>m\<close> changes nothing.\<close>

lemma save_servers_succeeds:
  assumes "case files fs ''mcp_servers.json'' of
             None \<Rightarrow> creatable fs | Some f \<Rightarrow> readable f \<and> writable f"
  shows "\<exists>f. save_servers m fs w =
           (Inr True, fs\<lparr>files := (files fs)(''mcp_servers.json'' \<mapsto> f)\<rparr>, w)
         \<and> readable f \<and> writable f \<and> parsed f = Some m"
  using assms
  by (auto simp add: save_servers_def save_servers_try_def split: option.splits)

lemma load_after_write:
  assumes "files fs ''mcp_servers.json'' = Some f" "readable f" "parsed f = Some m"
  shows "load_saved_servers fs w = (Inr m, w)"
  using assms by (simp add: load_saved_servers_def load_saved_servers_try_def)

lemma save_again_changes_nothing:
  assumes "files fs ''mcp_servers.json'' = Some f" "writable f" "parsed f = Some m"
  shows "save_servers m fs w = (Inr True, fs, w)"
proof -
  have "f\<lparr>parsed := Some m\<rparr> = f"
    using assms(3) by simp
  then have "(files fs)(''mcp_servers.json'' \<mapsto> f\<lparr>parsed := Some m\<rparr>) = files fs"
    using assms(1) by (simp add: fun_upd_idem)
  then show ?thesis
    using assms(1,2) by (simp add: save_servers_def save_servers_try_def)
qed

lemma save_then_load:
  assumes "case files fs ''mcp_servers.json'' of
             None \<Rightarrow> creatable fs | Some f \<Rightarrow> readable f \<and> writable f"
  shows "\<exists>fs1. save_servers m fs w = (Inr True, fs1, w)
            \<and> load_saved_servers fs1 w2 = (Inr m, w2)
            \<and> save_servers m fs1 w = (Inr True, fs1, w)"
proof -
  from save_servers_succeeds [OF assms, of m w]
  obtain f where s: "save_servers m fs w =
           (Inr True, fs\<lparr>files := (files fs)(''mcp_servers.json'' \<mapsto> f)\<rparr>, w)"
    and f: "readable f" "writable f" "parsed f = Some m"
    by blast
  let ?fs1 = "fs\<lparr>files := (files fs)(''mcp_servers.json'' \<mapsto> f)\<rparr>"
  have look: "files ?fs1 ''mcp_servers.json'' = Some f"
    by simp
  show ?thesis
    using s load_after_write [OF look f(1) f(3)] save_again_changes_nothing [OF look f(2) f(3)]
    by blast
qed

lemma submit_local:
  "submit_add_server ''stdio'' ''local'' url ''run'' ''/abs/path/server'' [] fs w =
     (case save_servers (JObj local_entry) fs w of
        (Inr True, fs1, w1) \<Rightarrow>
          (local_entry, fs1,
           emit [StSuccess (''Server '' @ [CHR 0x27] @ ''local'' @ [CHR 0x27]
                            @ '' added successfully''), StRerun] w1)
      | (r, fs1, w1) \<Rightarrow> (local_entry, fs1, emit [StErrorText ''Failed to save the server''] w1))"
  by (simp add: submit_add_server_def local_entry_def lower_def lower_char_def Let_def
      split: prod.splits sum.splits bool.splits)

text \<open>
  C8. On storage that can be opened (the registry file is absent and can be created, or
  is there, readable and writable): \<^verbatim>\<open>save_servers(m)\<close> returns \<^verbatim>\<open>True\<close>, the next
  \<^verbatim>\<open>load_saved_servers()\<close> returns \<open>m\<close> and reports nothing, and saving \<open>m\<close> again leaves
  the file as it is; saving what a load has returned and loading again returns the same
  value; and submitting the form with the name \<^verbatim>\<open>local\<close>, the protocol \<^verbatim>\<open>stdio\<close>, the
  command \<^verbatim>\<open>run\<close> and the program \<^verbatim>\<open>/abs/path/server\<close> on an empty registry, then loading,
  returns the registry with exactly that entry: the key \<^verbatim>\<open>local\<close> and the three fields
  \<^verbatim>\<open>protocol\<close>, \<^verbatim>\<open>command\<close>, \<^verbatim>\<open>program\<close>.
\<close>

theorem registry_round_trip:
  assumes "case files fs ''mcp_servers.json'' of
             None \<Rightarrow> creatable fs | Some f \<Rightarrow> readable f \<and> writable f"
  shows "(\<exists>fs1. save_servers m fs w = (Inr True, fs1, w)
            \<and> load_saved_servers fs1 w = (Inr m, w)
            \<and> save_servers m fs1 w = (Inr True, fs1, w))
    \<and> (\<exists>j fs1. fst (load_saved_servers fs w) = Inr j
            \<and> save_servers j fs w = (Inr True, fs1, w)
            \<and> load_saved_servers fs1 w = (Inr j, w))
    \<and> (\<exists>fs1 w1. submit_add_server ''stdio'' ''local'' url ''run'' ''/abs/path/server'' [] fs w
                   = (local_entry, fs1, w1)
            \<and> load_saved_servers fs1 w1 = (Inr (JObj local_entry), w1))"
proof -
  obtain j where j: "fst (load_saved_servers fs w) = Inr j"
    by (cases "load_saved_servers_try fs") (auto simp add: load_saved_servers_def)
  have second: "\<exists>j fs1. fst (load_saved_servers fs w) = Inr j
            \<and> save_servers j fs w = (Inr True, fs1, w)
            \<and> load_saved_servers fs1 w = (Inr j, w)"
    using j save_then_load [OF assms, of j w w] by blast
  have third: "\<exists>fs1 w1. submit_add_server ''stdio'' ''local'' url ''run'' ''/abs/path/server'' [] fs w
                   = (local_entry, fs1, w1)
            \<and> load_saved_servers fs1 w1 = (Inr (JObj local_entry), w1)"
  proof -
    let ?w1 = "emit [StSuccess (''Server '' @ [CHR 0x27] @ ''local'' @ [CHR 0x27]
                            @ '' added successfully''), StRerun] w"
    from save_then_load [OF assms, of "JObj local_entry" w ?w1]
    obtain fs1 where s: "save_servers (JObj local_entry) fs w = (Inr True, fs1, w)"
      and l: "load_saved_servers fs1 ?w1 = (Inr (JObj local_entry), ?w1)"
      by blast
    have "submit_add_server ''stdio'' ''local'' url ''run'' ''/abs/path/server'' [] fs w
            = (local_entry, fs1, ?w1)"
      by (simp add: submit_local s)
    with l show ?thesis
      by blast
  qed
  from save_then_load [OF assms, of m w w] second third show ?thesis
    by blast
qed

theorem registry_round_trip_witness:
  "creatable empty_filesystem
   \<and> files empty_filesystem ''mcp_servers.json'' = None
   \<and> (\<exists>fs1. save_servers (JObj local_entry) empty_filesystem idle_world = (Inr True, fs1, idle_world)
         \<and> load_saved_servers fs1 idle_world = (Inr (JObj local_entry), idle_world))"
proof -
  have h: "case files empty_filesystem ''mcp_servers.json'' of
             None \<Rightarrow> creatable empty_filesystem | Some f \<Rightarrow> readable f \<and> writable f"
    by (simp add: empty_filesystem_def)
  from registry_round_trip [OF h, of "JObj local_entry" idle_world]
  have "\<exists>fs1. save_servers (JObj local_entry) empty_filesystem idle_world = (Inr True, fs1, idle_world)
         \<and> load_saved_servers fs1 idle_world = (Inr (JObj local_entry), idle_world)"
    by blast
  then show ?thesis
    by (simp add: empty_filesystem_def)
qed

section \<open>The endpoint\<close>

lemma get_server_info_request:
  assumes "protocol c = ''http''" "server_url c = Attr v"
  shows "\<exists>rest. events (snd (get_server_info E c w)) =
           events w @ HttpGet (format_str v @ ''/server_info'') # rest"
  using assms
  by (auto simp add: get_server_info_def emit_def Let_def split: sum.splits)

lemma list_tools_request:
  assumes "protocol c = ''http''" "server_url c = Attr v"
  shows "\<exists>rest. events (snd (snd (list_tools E c w))) =
           events w @ HttpGet (format_str v @ ''/list_tools'') # rest"
  using assms
  by (auto simp add: list_tools_def emit_def Let_def split: sum.splits)

text \<open>
  C9. For every non-empty \<open>u\<close>, the http constructor returns a client whose
  \<open>server_url\<close> is \<open>u\<close> without its trailing slashes: \<open>u\<close> is that endpoint followed by
  slashes only, and the endpoint does not end in a slash. The first thing
  \<^verbatim>\<open>get_server_info\<close> and \<^verbatim>\<open>list_tools\<close> do on that client is the request to the endpoint
  followed by \<^verbatim>\<open>/server_info\<close>, respectively \<^verbatim>\<open>/list_tools\<close>.
\<close>

theorem http_endpoint_normalized:
  assumes "u \<noteq> []"
  shows "(\<exists>c. MCPClient_init (Some u) cmd program ''http'' w = (Inr c, w)
            \<and> server_url c = Attr (Some (rstrip u ''/''))
            \<and> (\<exists>rest. events (snd (get_server_info E c w)) =
                   events w @ HttpGet (rstrip u ''/'' @ ''/server_info'') # rest)
            \<and> (\<exists>rest. events (snd (snd (list_tools E c w))) =
                   events w @ HttpGet (rstrip u ''/'' @ ''/list_tools'') # rest))
    \<and> (\<exists>n. u = rstrip u ''/'' @ replicate n (CHR ''/''))
    \<and> \<not> endswith (rstrip u ''/'') ''/''"
proof -
  let ?c = "fresh_http_client (Some (rstrip u ''/''))"
  have i: "MCPClient_init (Some u) cmd program ''http'' w = (Inr ?c, w)"
    using assms by (simp add: init_http)
  have p: "protocol ?c = ''http''" and s: "server_url ?c = Attr (Some (rstrip u ''/''))"
    by (simp_all add: fresh_http_client_def)
  from get_server_info_request [OF p s, of E w] list_tools_request [OF p s, of E w] i s
  have "\<exists>c. MCPClient_init (Some u) cmd program ''http'' w = (Inr c, w)
            \<and> server_url c = Attr (Some (rstrip u ''/''))
            \<and> (\<exists>rest. events (snd (get_server_info E c w)) =
                   events w @ HttpGet (rstrip u ''/'' @ ''/server_info'') # rest)
            \<and> (\<exists>rest. events (snd (snd (list_tools E c w))) =
                   events w @ HttpGet (rstrip u ''/'' @ ''/list_tools'') # rest)"
    by auto
  then show ?thesis
    using rstrip_decompose [of u "CHR ''/''"] rstrip_no_trailing [of u "CHR ''/''"]
    by blast
qed

theorem http_endpoint_normalized_witness:
  "''http://localhost:8000//'' \<noteq> []
   \<and> (\<exists>c. MCPClient_init (Some ''http://localhost:8000//'') None None ''http'' idle_world
             = (Inr c, idle_world)
         \<and> server_url c = Attr (Some ''http://localhost:8000'')
         \<and> (\<exists>rest. events (snd (get_server_info unreachable_environment c idle_world)) =
                HttpGet ''http://localhost:8000/server_info'' # rest)
         \<and> (\<exists>rest. events (snd (snd (list_tools unreachable_environment c idle_world))) =
                HttpGet ''http://localhost:8000/list_tools'' # rest))"
proof -
  have n: "''http://localhost:8000//'' \<noteq> []"
    by simp
  have r: "rstrip ''http://localhost:8000//'' ''/'' = ''http://localhost:8000''"
    by (simp add: rstrip_def)
  from http_endpoint_normalized [OF n, of None None idle_world unreachable_environment]
  show ?thesis
    unfolding r by (auto simp add: idle_world_def)
qed

section \<open>The script path\<close>

lemma open_session_no_ValueError: "fst (open_session E c w) \<noteq> Inl (ValueError m)"
  by (simp add: open_session_def Let_def split: attr.splits option.splits)

lemma get_server_info_no_ValueError: "fst (get_server_info E c w) \<noteq> Inl (ValueError m)"
  by (auto simp add: get_server_info_def get_server_info_try_def raise_for_status_def
      response_json_def Let_def split: attr.splits sum.splits option.splits if_splits)

text \<open>
  C10. For a path that ends neither in \<^verbatim>\<open>.py\<close> nor in \<^verbatim>\<open>.js\<close>, \<^verbatim>\<open>connect_to_server\<close>
  raises \<^verbatim>\<open>ValueError("Server script must be a .py or .js file")\<close> and leaves the client
  (its exit stack included) and the world as they were: no transport is opened and no
  subprocess is spawned. For a path with one of the two suffixes no \<^verbatim>\<open>ValueError\<close> is
  raised, and when the client has launch parameters and the launch succeeds, the
  subprocess is spawned.
\<close>

theorem connect_to_server_suffix_check:
  "(\<not> endswith p ''.py'' \<and> \<not> endswith p ''.js''
      \<longrightarrow> connect_to_server E c p w =
            (Inl (ValueError ''Server script must be a .py or .js file''), c, w))
   \<and> (endswith p ''.py'' \<or> endswith p ''.js''
      \<longrightarrow> fst (connect_to_server E c p w) \<noteq> Inl (ValueError m))
   \<and> ((endswith p ''.py'' \<or> endswith p ''.js'')
        \<and> server_params c = Attr sp \<and> stdio_client E sp = None
      \<longrightarrow> (\<exists>rest. events (snd (snd (connect_to_server E c p w))) =
                    events w @ Spawned (next_pid w) sp # rest))"
proof -
  have reject: "connect_to_server E c p w =
            (Inl (ValueError ''Server script must be a .py or .js file''), c, w)"
    if "\<not> endswith p ''.py''" "\<not> endswith p ''.js''"
    using that by (simp add: connect_to_server_def)
  have pass: "fst (connect_to_server E c p w) \<noteq> Inl (ValueError m)"
    if "endswith p ''.py'' \<or> endswith p ''.js''"
  proof -
    obtain r c1 w1 where o: "open_session E c w = (r, c1, w1)"
      by (metis prod_cases3)
    have r: "r \<noteq> Inl (ValueError m)"
      using open_session_no_ValueError [of E c w m] o by simp
    show ?thesis
    proof (cases r)
      case (Inl e)
      with that o r show ?thesis
        by (auto simp add: connect_to_server_def)
    next
      case (Inr pid)
      show ?thesis
      proof (cases "session_list_tools E")
        case (Inl msg)
        with that o Inr show ?thesis
          by (auto simp add: connect_to_server_def)
      next
        case ts: (Inr ts)
        let ?w2 = "emit [ToolsListed pid, Printed (map tool_name ts)] w1"
        obtain r3 w3 where g: "get_server_info E c1 ?w2 = (r3, w3)"
          by (metis surj_pair)
        have "r3 \<noteq> Inl (ValueError m)"
          using get_server_info_no_ValueError [of E c1 ?w2 m] g by simp
        with that o Inr ts g show ?thesis
          by (auto simp add: connect_to_server_def Let_def)
      qed
    qed
  qed
  have launch: "\<exists>rest. events (snd (snd (connect_to_server E c p w))) =
                    events w @ Spawned (next_pid w) sp # rest"
    if "endswith p ''.py'' \<or> endswith p ''.js''" "server_params c = Attr sp"
      "stdio_client E sp = None"
    using that
    by (auto simp add: connect_to_server_def open_session_def get_server_info_def emit_def
        Let_def split: option.splits sum.splits attr.splits)
  from reject pass launch show ?thesis
    by blast
qed

theorem connect_to_server_suffix_check_witness:
  "\<not> endswith ''notes.txt'' ''.py'' \<and> \<not> endswith ''notes.txt'' ''.js''
   \<and> connect_to_server (serving_environment \<lparr>status_code = 200, body = None\<rparr> [])
        (fresh_stdio_client (Some ''run'')) ''notes.txt'' idle_world =
       (Inl (ValueError ''Server script must be a .py or .js file''),
        fresh_stdio_client (Some ''run''), idle_world)
   \<and> endswith ''server.py'' ''.py''
   \<and> fst (connect_to_server (serving_environment \<lparr>status_code = 200, body = None\<rparr> [])
        (fresh_stdio_client (Some ''run'')) ''server.py'' idle_world)
       \<noteq> Inl (ValueError ''Server script must be a .py or .js file'')
   \<and> (\<exists>rest. events (snd (snd (connect_to_server
          (serving_environment \<lparr>status_code = 200, body = None\<rparr> [])
          (fresh_stdio_client (Some ''run'')) ''server.py'' idle_world))) =
        Spawned 0 uv_parameters # rest)"
proof -
  let ?E = "serving_environment \<lparr>status_code = 200, body = None\<rparr> []"
  let ?c = "fresh_stdio_client (Some ''run'')"
  have other: "\<not> endswith ''notes.txt'' ''.py''" "\<not> endswith ''notes.txt'' ''.js''"
    and py: "endswith ''server.py'' ''.py''"
    by (simp_all add: endswith_def)
  have sp: "server_params ?c = Attr uv_parameters"
    by (simp add: fresh_stdio_client_def)
  have ok: "stdio_client ?E uv_parameters = None"
    by (simp add: serving_environment_def)
  from connect_to_server_suffix_check [of "''notes.txt''" ?E ?c idle_world] other
  have a: "connect_to_server ?E ?c ''notes.txt'' idle_world =
       (Inl (ValueError ''Server script must be a .py or .js file''), ?c, idle_world)"
    by blast
  from connect_to_server_suffix_check
         [of "''server.py''" ?E ?c idle_world "''Server script must be a .py or .js file''"
             uv_parameters] py sp ok
  have b: "fst (connect_to_server ?E ?c ''server.py'' idle_world)
       \<noteq> Inl (ValueError ''Server script must be a .py or .js file'')"
    and c: "\<exists>rest. events (snd (snd (connect_to_server ?E ?c ''server.py'' idle_world))) =
        events idle_world @ Spawned (next_pid idle_world) uv_parameters # rest"
    by blast+
  from other py a b c show ?thesis
    by (simp add: idle_world_def)
qed

end
